theory Spec2Isabelle
  imports Complex_Main "HOL-Library.Multiset"
begin

section \<open>Python values, exceptions and small library functions\<close>

text \<open>
  The two scripts of the repository, \<^verbatim>\<open>atlantic/sandy/setrun.py\<close> and
  \<^verbatim>\<open>mangkhut/setplot.py\<close>, are embedded as HOL functions. Python floats are
  idealised as \<^typ>\<open>real\<close> numbers with exact arithmetic (every constant that enters
  a derived quantity below is an integer well inside the exactly representable range of
  a binary64 float); Python integers are \<^typ>\<open>int\<close>; Python strings are
  \<^typ>\<open>string\<close>. An exception is a value of type \<open>error\<close>, and a function that may
  raise returns \<open>error + 'a\<close> with \<open>Inl\<close> for the raised exception.
\<close>

datatype error =
    AssertionError string
  | AttributeError string
  | IndexError string
  | KeyError string
  | FileNotFoundError string
  | URLError string
  | OSError string
  | UnicodeDecodeError string
  | ValueError string

text \<open>\<^verbatim>\<open>int(x)\<close> on a float truncates towards zero.\<close>

definition py_int :: "real \<Rightarrow> int" where
  "py_int x = (if 0 \<le> x then \<lfloor>x\<rfloor> else \<lceil>x\<rceil>)"

text \<open>\<^verbatim>\<open>str.lower()\<close>, on the ASCII letters.\<close>

definition lower_char :: "char \<Rightarrow> char" where
  "lower_char c =
     (case map_of (zip ''ABCDEFGHIJKLMNOPQRSTUVWXYZ'' ''abcdefghijklmnopqrstuvwxyz'') c of
        Some d \<Rightarrow> d
      | None \<Rightarrow> c)"

definition str_lower :: "string \<Rightarrow> string" where
  "str_lower s = map lower_char s"

text \<open>\<^verbatim>\<open>xs[i] = v\<close> raises \<^verbatim>\<open>IndexError\<close> when \<open>i\<close> is out of range.\<close>

definition set_item :: "'a list \<Rightarrow> nat \<Rightarrow> 'a \<Rightarrow> error + 'a list" where
  "set_item xs i v =
     (if i < length xs then Inr (xs[i := v])
      else Inl (IndexError ''list assignment index out of range''))"

text \<open>\<^verbatim>\<open>xs[i]\<close> with a non-negative index raises \<^verbatim>\<open>IndexError\<close> out of range.\<close>

definition get_item :: "'a list \<Rightarrow> nat \<Rightarrow> error + 'a" where
  "get_item xs i =
     (if i < length xs then Inr (xs ! i) else Inl (IndexError ''list index out of range''))"

text \<open>\<^verbatim>\<open>str(n)\<close> on an integer: an optional sign and the decimal digits.\<close>

definition digit_char :: "nat \<Rightarrow> char" where
  "digit_char d = ''0123456789'' ! d"

function str_nat :: "nat \<Rightarrow> string" where
  "str_nat n = (if n < 10 then [digit_char n] else str_nat (n div 10) @ [digit_char (n mod 10)])"
  by pat_completeness auto
termination
  by (relation "measure id") auto

declare str_nat.simps [simp del]

definition str_int :: "int \<Rightarrow> string" where
  "str_int i = (if i < 0 then ''-'' @ str_nat (nat (- i)) else str_nat (nat i))"

text \<open>\<^verbatim>\<open>os.path.join(a, b)\<close> and \<^verbatim>\<open>os.path.basename(p)\<close> on POSIX paths.\<close>

definition path_join :: "string \<Rightarrow> string \<Rightarrow> string" where
  "path_join a b =
     (if b \<noteq> [] \<and> hd b = CHR ''/'' then b
      else if a = [] \<or> last a = CHR ''/'' then a @ b
      else a @ ''/'' @ b)"

definition basename :: "string \<Rightarrow> string" where
  "basename p = rev (takeWhile (\<lambda>c. c \<noteq> CHR ''/'') (rev p))"

section \<open>setrun.py: time conversion and derived quantities\<close>

text \<open>\<^verbatim>\<open>def days2seconds(days): return days * 60.0**2 * 24.0\<close>\<close>

definition days2seconds :: "real \<Rightarrow> real" where
  "days2seconds days = days * 60 ^ 2 * 24"

text \<open>
  Lines 93--95 of \<^verbatim>\<open>setrun\<close>:
  \<^verbatim>\<open>degree_factor = 4\<close> and, for each axis,
  \<^verbatim>\<open>num_cells[k] = int(upper[k] - lower[k]) * degree_factor\<close>.
  The expression is abstracted over the two bounds it reads.
\<close>

definition degree_factor :: int where
  "degree_factor = 4"

definition axis_num_cells :: "real \<Rightarrow> real \<Rightarrow> int" where
  "axis_num_cells lo up = py_int (up - lo) * degree_factor"

text \<open>
  Lines 146--148 of \<^verbatim>\<open>setrun\<close>:
  \<^verbatim>\<open>num_output_times = int((tfinal - t0) * recurrence / (60**2 * 24))\<close>,
  abstracted over the three quantities it reads; \<open>recurrence\<close> is a Python int.
\<close>

definition recurrence :: int where
  "recurrence = 24"

definition seconds_per_day :: int where
  "seconds_per_day = 60 ^ 2 * 24"

definition output_frames :: "real \<Rightarrow> real \<Rightarrow> int \<Rightarrow> int" where
  "output_frames t_0 t_final rec =
     py_int ((t_final - t_0) * real_of_int rec / real_of_int seconds_per_day)"

section \<open>The run configuration aggregate\<close>

text \<open>
  The classes of the configuration aggregate belong to the solver framework; the records
  below hold the attributes that the two scripts assign or read, each with the Python
  type of the value the scripts store in it. Positional lists such as
  \<^verbatim>\<open>[gaugeno, x, y, t1, t2]\<close> become records whose fields follow the layout
  comments of the source.
\<close>

record ClawInputData =
  num_dim :: nat
  lower :: "real list"
  upper :: "real list"
  num_cells :: "int list"
  num_eqn :: int
  num_aux :: int
  capa_index :: int
  t0 :: real
  restart :: bool
  restart_file :: string
  output_style :: int
  tfinal :: real
  num_output_times :: int
  output_t0 :: bool
  output_times :: "real list"
  output_step_interval :: int
  total_steps :: int
  output_format :: string
  output_q_components :: string
  output_aux_components :: string
  output_aux_onlyonce :: bool
  verbosity :: int
  dt_variable :: bool
  dt_initial :: real
  dt_max :: real
  cfl_desired :: real
  cfl_max :: real
  steps_max :: int
  order :: int
  dimensional_split :: string
  transverse_waves :: int
  num_waves :: int
  limiter :: "string list"
  use_fwaves :: bool
  source_split :: string
  num_ghost :: int
  bc_lower :: "string list"
  bc_upper :: "string list"
  checkpt_style :: int
  checkpt_times :: "real list"
  checkpt_interval :: int

record AmrclawInputData =
  amr_levels_max :: int
  refinement_ratios_x :: "int list"
  refinement_ratios_y :: "int list"
  refinement_ratios_t :: "int list"
  aux_type :: "string list"
  flag_richardson :: bool
  flag2refine :: bool
  regrid_interval :: int
  regrid_buffer_width :: int
  clustering_cutoff :: real
  verbosity_regrid :: int
  dprint :: bool
  eprint :: bool
  edebug :: bool
  gprint :: bool
  nprint :: bool
  pprint :: bool
  rprint :: bool
  sprint :: bool
  tprint :: bool
  uprint :: bool

text \<open>\<^verbatim>\<open>[minlevel, maxlevel, t1, t2, x1, x2, y1, y2]\<close>\<close>

record Region =
  region_minlevel :: int
  region_maxlevel :: int
  region_t1 :: real
  region_t2 :: real
  region_x1 :: real
  region_x2 :: real
  region_y1 :: real
  region_y2 :: real

text \<open>\<^verbatim>\<open>[gaugeno, x, y, t1, t2]\<close>\<close>

record Gauge =
  gaugeno :: int
  gauge_x :: real
  gauge_y :: real
  gauge_t1 :: real
  gauge_t2 :: real

text \<open>\<^verbatim>\<open>[topotype, minlevel, maxlevel, t1, t2, fname]\<close>\<close>

record TopoFile =
  topotype :: int
  topo_minlevel :: int
  topo_maxlevel :: int
  topo_t1 :: real
  topo_t2 :: real
  topo_fname :: string

record GeoClawData =
  gravity :: real
  coordinate_system :: int
  earth_radius :: real
  rho :: real
  rho_air :: real
  ambient_pressure :: real
  coriolis_forcing :: bool
  friction_forcing :: bool
  friction_depth :: real
  sea_level :: real
  dry_tolerance :: real

record RefinementData =
  wave_tolerance :: real
  speed_tolerance :: "real list"
  deep_depth :: real
  max_level_deep :: int
  variable_dt_refinement_ratios :: bool

record QinitData =
  qinit_type :: int
  qinitfiles :: "(int \<times> int \<times> string) list"

record SurgeData =
  wind_forcing :: bool
  drag_law :: int
  pressure_forcing :: bool
  display_landfall_time :: bool
  wind_refine :: "real list"
  R_refine :: "real list"
  storm_specification_type :: string
  storm_file :: string

text \<open>A float that may be \<^verbatim>\<open>np.infty\<close> or \<^verbatim>\<open>-np.infty\<close>.\<close>

datatype xfloat = Finite real | PosInf | NegInf

text \<open>\<^verbatim>\<open>[lower, upper, depths, manning_coefficients]\<close>\<close>

record FrictionRegion =
  friction_lower :: "real list"
  friction_upper :: "real list"
  friction_depths :: "xfloat list"
  friction_coefficients :: "real list"

record FrictionData =
  variable_friction :: bool
  friction_regions :: "FrictionRegion list"

text \<open>
  The aggregate \<^verbatim>\<open>rundata\<close>. Only the presence of \<^verbatim>\<open>geo_data\<close> is tested by
  the source (\<^verbatim>\<open>setgeo\<close>, lines 391--395), so only that attribute is optional here.
  The list attributes \<^verbatim>\<open>regiondata.regions\<close>, \<^verbatim>\<open>gaugedata.gauges\<close>,
  \<^verbatim>\<open>topo_data.topofiles\<close> and \<^verbatim>\<open>fixed_grid_data.fixedgrids\<close> are the only
  attributes of their objects that the scripts touch and are kept as fields of the
  aggregate itself.
\<close>

record rundata =
  clawdata :: ClawInputData
  amrdata :: AmrclawInputData
  regions :: "Region list"
  gauges :: "Gauge list"
  geo_data :: "GeoClawData option"
  refinement_data :: RefinementData
  topofiles :: "TopoFile list"
  qinit_data :: QinitData
  fixedgrids :: "real list list"
  surge_data :: SurgeData
  friction_data :: FrictionData

section \<open>setrun.py: populating the standard parameters\<close>

text \<open>
  A block of statements on one object is a list of steps run in order; the first step
  that raises ends the block with its exception.
\<close>

fun seq :: "('s \<Rightarrow> error + 's) list \<Rightarrow> 's \<Rightarrow> error + 's" where
  "seq [] s = Inr s"
| "seq (f # fs) s = (case f s of Inl e \<Rightarrow> Inl e | Inr s' \<Rightarrow> seq fs s')"

definition assign :: "('s \<Rightarrow> 's) \<Rightarrow> 's \<Rightarrow> error + 's" where
  "assign f s = Inr (f s)"

definition set_lower :: "nat \<Rightarrow> real \<Rightarrow> ClawInputData \<Rightarrow> error + ClawInputData" where
  "set_lower i v c =
     (case set_item (lower c) i v of Inl e \<Rightarrow> Inl e | Inr xs \<Rightarrow> Inr (c\<lparr>lower := xs\<rparr>))"

definition set_upper :: "nat \<Rightarrow> real \<Rightarrow> ClawInputData \<Rightarrow> error + ClawInputData" where
  "set_upper i v c =
     (case set_item (upper c) i v of Inl e \<Rightarrow> Inl e | Inr xs \<Rightarrow> Inr (c\<lparr>upper := xs\<rparr>))"

definition set_num_cells :: "nat \<Rightarrow> int \<Rightarrow> ClawInputData \<Rightarrow> error + ClawInputData" where
  "set_num_cells i v c =
     (case set_item (num_cells c) i v of Inl e \<Rightarrow> Inl e | Inr xs \<Rightarrow> Inr (c\<lparr>num_cells := xs\<rparr>))"

definition set_bc_lower :: "nat \<Rightarrow> string \<Rightarrow> ClawInputData \<Rightarrow> error + ClawInputData" where
  "set_bc_lower i v c =
     (case set_item (bc_lower c) i v of Inl e \<Rightarrow> Inl e | Inr xs \<Rightarrow> Inr (c\<lparr>bc_lower := xs\<rparr>))"

definition set_bc_upper :: "nat \<Rightarrow> string \<Rightarrow> ClawInputData \<Rightarrow> error + ClawInputData" where
  "set_bc_upper i v c =
     (case set_item (bc_upper c) i v of Inl e \<Rightarrow> Inl e | Inr xs \<Rightarrow> Inr (c\<lparr>bc_upper := xs\<rparr>))"

text \<open>
  Lines 76--287 of \<^verbatim>\<open>setrun\<close>: the statements on \<^verbatim>\<open>clawdata\<close>, in source
  order. The reads \<^verbatim>\<open>clawdata.upper[k]\<close> and \<^verbatim>\<open>clawdata.lower[k]\<close> of lines
  94--95 follow successful assignments to the same indices, so they are in range.
\<close>

definition setrun_clawdata :: "nat \<Rightarrow> ClawInputData \<Rightarrow> error + ClawInputData" where
  "setrun_clawdata nd = seq
     [assign (\<lambda>c. c\<lparr>num_dim := nd\<rparr>),
      set_lower 0 (- 88),
      set_upper 0 (- 55),
      set_lower 1 15,
      set_upper 1 45,
      (\<lambda>c. set_num_cells 0 (axis_num_cells (lower c ! 0) (upper c ! 0)) c),
      (\<lambda>c. set_num_cells 1 (axis_num_cells (lower c ! 1) (upper c ! 1)) c),
      assign (\<lambda>c. c\<lparr>num_eqn := 3, num_aux := 3 + 1 + 3, capa_index := 2\<rparr>),
      assign (\<lambda>c. c\<lparr>t0 := days2seconds (- 2)\<rparr>),
      assign (\<lambda>c. c\<lparr>restart := False, restart_file := ''fort.chk00043''\<rparr>),
      assign (\<lambda>c. c\<lparr>output_style := 1\<rparr>),
      (\<lambda>c. if output_style c = 1 then
              seq [assign (\<lambda>c. c\<lparr>tfinal := days2seconds 1\<rparr>),
                   assign (\<lambda>c. c\<lparr>num_output_times :=
                                     output_frames (t0 c) (tfinal c) recurrence\<rparr>),
                   assign (\<lambda>c. c\<lparr>output_t0 := True\<rparr>)] c
            else if output_style c = 2 then
              assign (\<lambda>c. c\<lparr>output_times := [0.5, 1.0]\<rparr>) c
            else if output_style c = 3 then
              assign (\<lambda>c. c\<lparr>output_step_interval := 1, total_steps := 1,
                              output_t0 := True\<rparr>) c
            else Inr c),
      assign (\<lambda>c. c\<lparr>output_format := ''ascii'', output_q_components := ''all'',
                      output_aux_components := ''all'', output_aux_onlyonce := False\<rparr>),
      assign (\<lambda>c. c\<lparr>verbosity := 4\<rparr>),
      assign (\<lambda>c. c\<lparr>dt_variable := True, dt_initial := 0.016, dt_max := 10 ^ 99,
                      cfl_desired := 0.75, cfl_max := 1.0, steps_max := 2 ^ 16\<rparr>),
      assign (\<lambda>c. c\<lparr>order := 1, dimensional_split := ''unsplit'',
                      transverse_waves := 2, num_waves := 3,
                      limiter := [''mc'', ''mc'', ''mc''], use_fwaves := True,
                      source_split := ''godunov''\<rparr>),
      assign (\<lambda>c. c\<lparr>num_ghost := 2\<rparr>),
      set_bc_lower 0 ''extrap'',
      set_bc_upper 0 ''extrap'',
      set_bc_lower 1 ''extrap'',
      set_bc_upper 1 ''extrap'',
      assign (\<lambda>c. c\<lparr>checkpt_style := 0\<rparr>),
      (\<lambda>c. if checkpt_style c = 0 then Inr c
            else if checkpt_style c = 1 then Inr c
            else if checkpt_style c = 2 then
              assign (\<lambda>c. c\<lparr>checkpt_times := [0.1, 0.15]\<rparr>) c
            else if checkpt_style c = 3 then
              assign (\<lambda>c. c\<lparr>checkpt_interval := 5\<rparr>) c
            else Inr c)]"

text \<open>Lines 293--348: the statements on \<^verbatim>\<open>amrdata\<close>; none of them can raise.\<close>

definition setrun_amrdata :: "AmrclawInputData \<Rightarrow> AmrclawInputData" where
  "setrun_amrdata a =
     a\<lparr>amr_levels_max := 6,
       refinement_ratios_x := [2, 2, 2, 6, 8],
       refinement_ratios_y := [2, 2, 2, 6, 8],
       refinement_ratios_t := [2, 2, 2, 6, 8],
       aux_type := [''center'', ''capacity'', ''yleft'', ''center'', ''center'',
                    ''center'', ''center'', ''center'', ''center''],
       flag_richardson := False,
       flag2refine := True,
       regrid_interval := 4,
       regrid_buffer_width := 2,
       clustering_cutoff := 0.7,
       verbosity_regrid := 0,
       dprint := False, eprint := False, edebug := False, gprint := False,
       nprint := False, pprint := False, rprint := False, sprint := False,
       tprint := False, uprint := False\<rparr>"

text \<open>Lines 353--357: two appends to \<^verbatim>\<open>rundata.regiondata.regions\<close>.\<close>

definition setrun_regions :: "Region list \<Rightarrow> Region list" where
  "setrun_regions rs =
     (rs @ [\<lparr>region_minlevel = 1, region_maxlevel = 6,
              region_t1 = days2seconds (- 0.45), region_t2 = days2seconds 0.10,
              region_x1 = - 74.1, region_x2 = - 73.7,
              region_y1 = 40.55, region_y2 = 48.5\<rparr>])
         @ [\<lparr>region_minlevel = 1, region_maxlevel = 5,
              region_t1 = days2seconds 0.10, region_t2 = days2seconds 1,
              region_x1 = - 74.2, region_x2 = - 73.7,
              region_y1 = 40.55, region_y2 = 48.5\<rparr>]"

text \<open>
  Lines 363--369: three appends to \<^verbatim>\<open>rundata.gaugedata.gauges\<close>, each reading
  \<^verbatim>\<open>clawdata.t0\<close> and \<^verbatim>\<open>clawdata.tfinal\<close>.
\<close>

definition setrun_gauges :: "ClawInputData \<Rightarrow> Gauge list \<Rightarrow> Gauge list" where
  "setrun_gauges c gs =
     ((gs @ [\<lparr>gaugeno = 1, gauge_x = - 74.013, gauge_y = 40.7,
               gauge_t1 = t0 c, gauge_t2 = tfinal c\<rparr>])
          @ [\<lparr>gaugeno = 2, gauge_x = - 73.77, gauge_y = 40.81,
               gauge_t1 = t0 c, gauge_t2 = tfinal c\<rparr>])
          @ [\<lparr>gaugeno = 3, gauge_x = - 74.14166, gauge_y = 40.6367,
               gauge_t1 = t0 c, gauge_t2 = tfinal c\<rparr>]"

section \<open>Files, network and the external collaborators\<close>

text \<open>
  The side effects of the scripts act on a \<open>world\<close>: the local files (path to content),
  what each remote URL serves, the log of URLs requested over the network, the lines
  printed, and the log of aggregates serialised by \<^verbatim>\<open>rundata.write()\<close>. An
  effectful function takes the world and returns its result with the new world; on an
  exception the world holds the effects that happened before it.
\<close>

record world =
  files :: "string \<rightharpoonup> string"
  remote :: "string \<rightharpoonup> string"
  net_log :: "string list"
  stdout :: "string list"
  written :: "rundata list"

text \<open>\<^verbatim>\<open>datetime.datetime(year, month, day, hour, minute)\<close>\<close>

record datetime =
  year :: int
  month :: int
  day :: int
  hour :: int
  minute :: int

text \<open>
  The storm object of the solver framework: the parsed track records and the
  \<^verbatim>\<open>time_offset\<close> attribute that \<^verbatim>\<open>setgeo\<close> assigns. A track record carries the
  attributes that the data model of the specification lists for a storm track.
\<close>

record TrackRecord =
  timestamp :: real
  position :: "real \<times> real"
  pressure :: real
  wind_radius :: real

record Storm =
  track :: "TrackRecord list"
  time_offset :: "datetime option"

text \<open>
  The functions of the solver framework and of the operating system that the scripts
  call and whose code is not part of the repository are parameters: the constructor
  \<^verbatim>\<open>ClawRunData(pkg, num_dim)\<close>, \<^verbatim>\<open>os.getcwd()\<close>,
  \<^verbatim>\<open>os.path.expandvars\<close>, gzip decompression, the ATCF parser behind
  \<^verbatim>\<open>Storm(path, file_format="ATCF")\<close> and the serialiser behind
  \<^verbatim>\<open>Storm.write(path, file_format='geoclaw')\<close>.
\<close>

record env =
  ClawRunData :: "string \<Rightarrow> nat \<Rightarrow> error + rundata"
  getcwd :: string
  expandvars :: "string \<Rightarrow> string"
  gunzip :: "string \<Rightarrow> error + string"
  Storm_read :: "string \<Rightarrow> error + Storm"
  Storm_write :: "Storm \<Rightarrow> error + string"

text \<open>\<^verbatim>\<open>bytes.decode('ascii')\<close> raises on a byte above 127.\<close>

definition decode_ascii :: "string \<Rightarrow> error + string" where
  "decode_ascii bs =
     (if list_all (\<lambda>c. (of_char c :: nat) < 128) bs then Inr bs
      else Inl (UnicodeDecodeError ''ascii''))"

text \<open>
  Modelled from the spec: \<^verbatim>\<open>clawutil.data.get_remote_file\<close>, which \<^verbatim>\<open>setgeo\<close>
  calls at lines 490--492, is not under src/. The specification says of it: "fetch a
  remote compressed best-track file (idempotent --- skip if already present locally)",
  "re-running the remote-fetch step when the local file already exists performs no
  network I/O and leaves the file unchanged", and "network fetch failure (must be
  surfaced, not silently swallowed)". The local file is the one named after the last
  component of the URL inside the output directory, which is the file that lines
  493--496 open next.
\<close>

definition get_remote_file :: "string \<Rightarrow> string \<Rightarrow> world \<Rightarrow> (error + unit) \<times> world" where
  "get_remote_file url output_dir w =
     (let output_path = path_join output_dir (basename url) in
      if files w output_path \<noteq> None then (Inr (), w)
      else
        (case remote w url of
           None \<Rightarrow> (Inl (URLError url), w\<lparr>net_log := net_log w @ [url]\<rparr>)
         | Some content \<Rightarrow>
             (Inr (), w\<lparr>net_log := net_log w @ [url],
                        files := (files w)(output_path \<mapsto> content)\<rparr>)))"

text \<open>
  Lines 496--498: \<^verbatim>\<open>gzip.open(atcf_path + ".gz", 'rb')\<close> needs the compressed file;
  \<^verbatim>\<open>open(atcf_path, 'w')\<close> then creates or truncates the target before the
  compressed file is read, decompressed and decoded, so a failure of either leaves
  the target empty.
\<close>

definition unzip_atcf :: "env \<Rightarrow> string \<Rightarrow> world \<Rightarrow> (error + unit) \<times> world" where
  "unzip_atcf e atcf_path w =
     (case files w (atcf_path @ ''.'' @ ''gz'') of
        None \<Rightarrow> (Inl (FileNotFoundError (atcf_path @ ''.'' @ ''gz'')), w)
      | Some gz \<Rightarrow>
          (let w' = w\<lparr>files := (files w)(atcf_path \<mapsto> [])\<rparr> in
           case gunzip e gz of
             Inl err \<Rightarrow> (Inl err, w')
           | Inr bs \<Rightarrow>
               (case decode_ascii bs of
                  Inl err \<Rightarrow> (Inl err, w')
                | Inr txt \<Rightarrow> (Inr (), w'\<lparr>files := (files w')(atcf_path \<mapsto> txt)\<rparr>))))"

definition atcf_url :: string where
  "atcf_url = ''http://ftp.nhc.noaa.gov/atcf/archive/2012/bal182012.dat.gz''"

text \<open>Lines 490--498: the remote fetch followed by the decompression.\<close>

definition fetch_atcf :: "env \<Rightarrow> world \<Rightarrow> (error + string) \<times> world" where
  "fetch_atcf e w =
     (case get_remote_file atcf_url (getcwd e) w of
        (Inl err, w1) \<Rightarrow> (Inl err, w1)
      | (Inr _, w1) \<Rightarrow>
          (let atcf_path = path_join (getcwd e) ''bal182012.dat'' in
           case unzip_atcf e atcf_path w1 of
             (Inl err, w2) \<Rightarrow> (Inl err, w2)
           | (Inr _, w2) \<Rightarrow> (Inr atcf_path, w2)))"

text \<open>
  Lines 490--506: fetch, decompress, parse, set the landfall time offset and write the
  storm file.
\<close>

definition landfall :: datetime where
  "landfall = \<lparr>year = 2012, month = 10, day = 30, hour = 0, minute = 0\<rparr>"

definition write_storm :: "env \<Rightarrow> string \<Rightarrow> world \<Rightarrow> (error + unit) \<times> world" where
  "write_storm e storm_path w =
     (case fetch_atcf e w of
        (Inl err, w2) \<Rightarrow> (Inl err, w2)
      | (Inr atcf_path, w2) \<Rightarrow>
          (case files w2 atcf_path of
             None \<Rightarrow> (Inl (FileNotFoundError atcf_path), w2)
           | Some content \<Rightarrow>
               (case Storm_read e content of
                  Inl err \<Rightarrow> (Inl err, w2)
                | Inr sandy \<Rightarrow>
                    (let sandy = sandy\<lparr>time_offset := Some landfall\<rparr> in
                     case Storm_write e sandy of
                       Inl err \<Rightarrow> (Inl err, w2)
                     | Inr out \<Rightarrow>
                         (Inr (), w2\<lparr>files := (files w2)(storm_path \<mapsto> out)\<rparr>)))))"

section \<open>setrun.py: setgeo, setrun and the script body\<close>

text \<open>Lines 398--412: the statements on \<^verbatim>\<open>geo_data\<close>.\<close>

definition setgeo_geo_data :: "GeoClawData \<Rightarrow> GeoClawData" where
  "setgeo_geo_data g =
     g\<lparr>gravity := 9.81,
       coordinate_system := 2,
       earth_radius := 6367.5 * 10 ^ 3,
       rho := 1025.0,
       rho_air := 1.15,
       ambient_pressure := 101.3 * 10 ^ 3,
       coriolis_forcing := True,
       friction_forcing := True,
       friction_depth := 10 ^ 10,
       sea_level := 0.33,
       dry_tolerance := 1 / 10 ^ 2\<rparr>"

text \<open>Lines 415--420: the refinement criteria.\<close>

definition setgeo_refinement_data :: "RefinementData \<Rightarrow> RefinementData" where
  "setgeo_refinement_data r =
     r\<lparr>wave_tolerance := 1.0,
       speed_tolerance := [1.0, 2.0, 3.0, 4.0],
       deep_depth := 300.0,
       max_level_deep := 4,
       variable_dt_refinement_ratios := True\<rparr>"

text \<open>
  Lines 424--437: \<^verbatim>\<open>topo_data.topofiles\<close> is reset to the empty list and receives
  six appends.
\<close>

definition topo_path :: string where
  "topo_path = ''../bathy''"

definition setgeo_topofiles :: "TopoFile list" where
  "setgeo_topofiles =
     [\<lparr>topotype = 3, topo_minlevel = 1, topo_maxlevel = 3,
       topo_t1 = days2seconds (- 2), topo_t2 = days2seconds 1,
       topo_fname = path_join topo_path ''atlantic_1min.tt3''\<rparr>,
      \<lparr>topotype = 3, topo_minlevel = 1, topo_maxlevel = 3,
       topo_t1 = days2seconds (- 2), topo_t2 = days2seconds 1,
       topo_fname = path_join topo_path ''newyork_3s.tt3''\<rparr>,
      \<lparr>topotype = 4, topo_minlevel = 1, topo_maxlevel = 6,
       topo_t1 = days2seconds (- 0.45), topo_t2 = days2seconds 0.46,
       topo_fname = path_join topo_path ''nc41x00_74x00.nc''\<rparr>,
      \<lparr>topotype = 4, topo_minlevel = 1, topo_maxlevel = 6,
       topo_t1 = days2seconds (- 0.45), topo_t2 = days2seconds 0.46,
       topo_fname = path_join topo_path ''nc40x75_74x00.nc''\<rparr>,
      \<lparr>topotype = 4, topo_minlevel = 1, topo_maxlevel = 6,
       topo_t1 = days2seconds (- 0.45), topo_t2 = days2seconds 0.46,
       topo_fname = path_join topo_path ''nc40x50_74x00.nc''\<rparr>,
      \<lparr>topotype = 4, topo_minlevel = 1, topo_maxlevel = 6,
       topo_t1 = days2seconds (- 0.45), topo_t2 = days2seconds 0.46,
       topo_fname = path_join topo_path ''nc40x75_73x75.nc''\<rparr>]"

text \<open>Lines 471--487: the statements on \<^verbatim>\<open>rundata.surge_data\<close>.\<close>

definition setgeo_surge_data :: "env \<Rightarrow> SurgeData \<Rightarrow> SurgeData" where
  "setgeo_surge_data e d =
     d\<lparr>wind_forcing := True,
       drag_law := 1,
       pressure_forcing := True,
       display_landfall_time := True,
       wind_refine := [20.0, 40.0, 60.0],
       R_refine := [60.0 * 10 ^ 3, 40 * 10 ^ 3, 20 * 10 ^ 3],
       storm_specification_type := ''holland80'',
       storm_file := expandvars e (path_join (getcwd e) ''sandy.storm'')\<rparr>"

text \<open>
  Lines 511--521: variable friction, with one region appended that spans the
  computational domain.
\<close>

definition setgeo_friction_data :: "ClawInputData \<Rightarrow> FrictionData \<Rightarrow> FrictionData" where
  "setgeo_friction_data c d =
     d\<lparr>variable_friction := True,
       friction_regions := friction_regions d @
         [\<lparr>friction_lower = lower c, friction_upper = upper c,
           friction_depths = [PosInf, Finite 0.0, NegInf],
           friction_coefficients = [0.050, 0.025]\<rparr>]\<rparr>"

text \<open>
  \<^verbatim>\<open>setgeo(rundata)\<close>. A missing \<^verbatim>\<open>geo_data\<close> attribute is caught by the bare
  \<^verbatim>\<open>except\<close>, which prints a message and raises \<^verbatim>\<open>AttributeError\<close>.
\<close>

definition setgeo :: "env \<Rightarrow> rundata \<Rightarrow> world \<Rightarrow> (error + rundata) \<times> world" where
  "setgeo e rundata w =
     (case geo_data rundata of
        None \<Rightarrow>
          (Inl (AttributeError ''Missing geodata attribute''),
           w\<lparr>stdout := stdout w @ [''*** Error, this rundata has no geodata attribute'']\<rparr>)
      | Some g \<Rightarrow>
          (let rundata = rundata\<lparr>geo_data := Some (setgeo_geo_data g)\<rparr>;
               rundata = rundata\<lparr>refinement_data :=
                            setgeo_refinement_data (refinement_data rundata)\<rparr>;
               rundata = rundata\<lparr>topofiles := setgeo_topofiles\<rparr>;
               rundata = rundata\<lparr>qinit_data :=
                            (qinit_data rundata)\<lparr>qinit_type := 0, qinitfiles := []\<rparr>\<rparr>;
               rundata = rundata\<lparr>fixedgrids := []\<rparr>;
               rundata = rundata\<lparr>surge_data := setgeo_surge_data e (surge_data rundata)\<rparr>
           in case write_storm e (storm_file (surge_data rundata)) w of
                (Inl err, w') \<Rightarrow> (Inl err, w')
              | (Inr _, w') \<Rightarrow>
                  (Inr (rundata\<lparr>friction_data :=
                          setgeo_friction_data (clawdata rundata) (friction_data rundata)\<rparr>),
                   w')))"

text \<open>
  \<^verbatim>\<open>setrun(claw_pkg='geoclaw')\<close>: the assertion of line 49, the construction of the
  aggregate, the standard parameters, the regions and gauges, and \<^verbatim>\<open>setgeo\<close>.
\<close>

definition expected_msg :: string where
  "expected_msg = ''Expected claw_pkg = '' @ [CHR 0x27] @ ''geoclaw'' @ [CHR 0x27]"

definition setrun :: "env \<Rightarrow> string \<Rightarrow> world \<Rightarrow> (error + rundata) \<times> world" where
  "setrun e claw_pkg w =
     (if str_lower claw_pkg \<noteq> ''geoclaw'' then (Inl (AssertionError expected_msg), w)
      else
        (let num_dim = 2 in
         case ClawRunData e claw_pkg num_dim of
           Inl err \<Rightarrow> (Inl err, w)
         | Inr rundata \<Rightarrow>
             (case setrun_clawdata num_dim (clawdata rundata) of
                Inl err \<Rightarrow> (Inl err, w)
              | Inr c \<Rightarrow>
                  (let rundata = rundata\<lparr>clawdata := c\<rparr>;
                       rundata = rundata\<lparr>amrdata := setrun_amrdata (amrdata rundata)\<rparr>;
                       rundata = rundata\<lparr>regions := setrun_regions (regions rundata)\<rparr>;
                       rundata = rundata\<lparr>gauges :=
                                    setrun_gauges (clawdata rundata) (gauges rundata)\<rparr>
                   in setgeo e rundata w))))"

text \<open>
  The script body, lines 529--537: \<^verbatim>\<open>setrun\<close> is called with the one command-line
  argument when there is exactly one and with its default otherwise, and the aggregate
  it returns is serialised by \<^verbatim>\<open>rundata.write()\<close>, the last statement of the
  script. \<open>argv\<close> is \<^verbatim>\<open>sys.argv\<close>. The result carries the value of the variable
  \<^verbatim>\<open>rundata\<close> when the script ends.
\<close>

definition main :: "env \<Rightarrow> string list \<Rightarrow> world \<Rightarrow> (error + rundata) \<times> world" where
  "main e argv w =
     (case (if length argv = 2 then setrun e (argv ! 1) w else setrun e ''geoclaw'' w) of
        (Inl err, w') \<Rightarrow> (Inl err, w')
      | (Inr rundata, w') \<Rightarrow> (Inr rundata, w'\<lparr>written := written w' @ [rundata]\<rparr>))"

section \<open>setplot.py: the plot specification\<close>

text \<open>
  The figure, axes and item descriptors of the plotting library, with the attributes
  that \<^verbatim>\<open>setplot\<close> assigns. An attribute that the script does not assign on every
  descriptor is optional, \<open>None\<close> standing for "left at the library's default". The
  attributes \<^verbatim>\<open>name\<close>, \<^verbatim>\<open>type\<close> and \<^verbatim>\<open>show\<close> of a figure are called
  \<open>fig_name\<close>, \<open>fig_type\<close> and \<open>fig_show\<close>; \<^verbatim>\<open>kwargs = {"figsize": v}\<close> is the
  field \<open>figsize\<close>. The callbacks are closures defined inside \<^verbatim>\<open>setplot\<close> and are
  represented by their names.
\<close>

datatype hook = surge_afteraxes | gauge_afteraxes | gauge_location_afteraxes

record PlotItem =
  item_name :: "string option"
  plot_type :: "string option"
  bounds :: "(real \<times> real) option"
  amr_patchedges_show :: "int list option"
  colorbar_ticks :: "int list option"
  colorbar_tick_labels :: "string list option"

record PlotAxes =
  title :: "string option"
  xlimits :: "(real \<times> real) option"
  ylimits :: "(real \<times> real) option"
  afteraxes :: "hook option"
  scaled :: "bool option"
  plotitems :: "PlotItem list"

record PlotFigure =
  fig_name :: string
  figno :: "int option"
  fig_type :: "string option"
  figsize :: "(real \<times> real) option"
  fig_show :: "bool option"
  clf_each_gauge :: "bool option"
  plotaxes :: "PlotAxes list"

record ClawPlotData =
  outdir :: string
  figures :: "PlotFigure list"
  format :: string
  printfigs :: bool
  print_format :: string
  print_framenos :: string
  print_gaugenos :: "int list"
  print_fignos :: string
  html :: bool
  latex :: bool
  latex_figsperline :: int
  latex_framesperline :: int
  latex_makepdf :: bool
  parallel :: bool

text \<open>
  The readers of the run's output directory and the constructor of a fresh
  \<^verbatim>\<open>ClawPlotData\<close> belong to the solver framework and are parameters. Each reader
  maps the path of a file to the object read from it, or to the exception raised.
\<close>

record plot_env =
  new_ClawPlotData :: ClawPlotData
  read_claw :: "string \<Rightarrow> error + ClawInputData"
  read_geoclaw :: "string \<Rightarrow> error + GeoClawData"
  read_surge :: "string \<Rightarrow> error + SurgeData"
  read_friction :: "string \<Rightarrow> error + FrictionData"
  track_data :: "string \<Rightarrow> error + Storm"

text \<open>
  \<^verbatim>\<open>plotdata.new_plotfigure(name, figno, type)\<close> appends a fresh figure to the plot
  data, \<^verbatim>\<open>plotfigure.new_plotaxes()\<close> gives the figure a fresh axes object and
  \<^verbatim>\<open>plotaxes.new_plotitem(plot_type)\<close> gives the axes a fresh item. The functions
  \<^verbatim>\<open>add_surface_elevation\<close>, \<^verbatim>\<open>add_speed\<close>, \<^verbatim>\<open>add_pressure\<close>,
  \<^verbatim>\<open>add_wind\<close> and \<^verbatim>\<open>add_land\<close> of \<^verbatim>\<open>surgeplot\<close> add the item that the
  script then finds in \<^verbatim>\<open>plotaxes.plotitem_dict\<close> under the keys
  \<^verbatim>\<open>'surface'\<close>, \<^verbatim>\<open>'speed'\<close> and \<^verbatim>\<open>'land'\<close>.
\<close>

definition new_plotfigure :: "string \<Rightarrow> int option \<Rightarrow> string option \<Rightarrow> PlotFigure" where
  "new_plotfigure name no ty =
     \<lparr>fig_name = name, figno = no, fig_type = ty, figsize = None, fig_show = None,
      clf_each_gauge = None, plotaxes = []\<rparr>"

definition new_plotaxes :: PlotAxes where
  "new_plotaxes =
     \<lparr>title = None, xlimits = None, ylimits = None, afteraxes = None, scaled = None,
      plotitems = []\<rparr>"

definition new_plotitem :: "string option \<Rightarrow> string option \<Rightarrow> (real \<times> real) option \<Rightarrow> PlotItem" where
  "new_plotitem name ty bnds =
     \<lparr>item_name = name, plot_type = ty, bounds = bnds, amr_patchedges_show = None,
      colorbar_ticks = None, colorbar_tick_labels = None\<rparr>"

definition add_item :: "PlotItem \<Rightarrow> PlotAxes \<Rightarrow> PlotAxes" where
  "add_item it ax = ax\<lparr>plotitems := plotitems ax @ [it]\<rparr>"

definition add_surface_elevation :: "real \<times> real \<Rightarrow> PlotAxes \<Rightarrow> PlotAxes" where
  "add_surface_elevation bnds = add_item (new_plotitem (Some ''surface'') None (Some bnds))"

definition add_speed :: "real \<times> real \<Rightarrow> PlotAxes \<Rightarrow> PlotAxes" where
  "add_speed bnds = add_item (new_plotitem (Some ''speed'') None (Some bnds))"

definition add_pressure :: "real \<times> real \<Rightarrow> PlotAxes \<Rightarrow> PlotAxes" where
  "add_pressure bnds = add_item (new_plotitem (Some ''pressure'') None (Some bnds))"

definition add_wind :: "real \<times> real \<Rightarrow> PlotAxes \<Rightarrow> PlotAxes" where
  "add_wind bnds = add_item (new_plotitem (Some ''wind'') None (Some bnds))"

definition add_land :: "PlotAxes \<Rightarrow> PlotAxes" where
  "add_land = add_item (new_plotitem (Some ''land'') None None)"

text \<open>
  \<^verbatim>\<open>plotaxes.plotitem_dict[key].attr = v\<close>: an update of the item stored under the
  key.
\<close>

definition on_item :: "string \<Rightarrow> (PlotItem \<Rightarrow> PlotItem) \<Rightarrow> PlotAxes \<Rightarrow> PlotAxes" where
  "on_item key f ax =
     ax\<lparr>plotitems := map (\<lambda>it. if item_name it = Some key then f it else it) (plotitems ax)\<rparr>"

text \<open>\<^verbatim>\<open>add_custom_colorbar_ticks_to_axes(axes, item_name, ticks, tick_labels)\<close>\<close>

definition add_custom_colorbar_ticks_to_axes ::
    "PlotAxes \<Rightarrow> string \<Rightarrow> int list \<Rightarrow> string list option \<Rightarrow> PlotAxes" where
  "add_custom_colorbar_ticks_to_axes axes name ticks tick_labels =
     on_item name (\<lambda>it. it\<lparr>colorbar_tick_labels := tick_labels\<rparr>)
       (on_item name (\<lambda>it. it\<lparr>colorbar_ticks := Some ticks\<rparr>) axes)"

text \<open>
  An entry of the \<^verbatim>\<open>regions\<close> dictionary of \<^verbatim>\<open>setplot\<close>: the values stored
  under \<^verbatim>\<open>"xlimits"\<close>, \<^verbatim>\<open>"ylimits"\<close> and \<^verbatim>\<open>"figsize"\<close>. The dictionary is
  an association list in insertion order, the order in which \<^verbatim>\<open>regions.items()\<close>
  iterates.
\<close>

record PlotRegion =
  r_xlimits :: "real \<times> real"
  r_ylimits :: "real \<times> real"
  r_figsize :: "real \<times> real"

text \<open>Lines 56--63: colour limits, ticks and labels.\<close>

definition surface_limits :: "GeoClawData \<Rightarrow> real \<times> real" where
  "surface_limits physics = (sea_level physics - 5.0, sea_level physics + 5.0)"

definition surface_ticks :: "int list" where
  "surface_ticks = [- 5, - 4, - 3, - 2, - 1, 0, 1, 2, 3, 4, 5]"

definition surface_labels :: "string list" where
  "surface_labels = map str_int surface_ticks"

definition speed_limits :: "real \<times> real" where
  "speed_limits = (0.0, 3.0)"

definition speed_ticks :: "int list" where
  "speed_ticks = [0, 1, 2, 3]"

definition speed_labels :: "string list" where
  "speed_labels = map str_int speed_ticks"

definition wind_limits :: "real \<times> real" where
  "wind_limits = (0, 66)"

definition pressure_limits :: "real \<times> real" where
  "pressure_limits = (909, 1013)"

text \<open>Lines 104--117: the surface figure of one region.\<close>

definition surface_figure :: "real \<times> real \<Rightarrow> string \<Rightarrow> PlotRegion \<Rightarrow> PlotFigure" where
  "surface_figure limits name region_dict =
     (let plotfigure = new_plotfigure (''Surface - '' @ name) None None;
          plotfigure = plotfigure\<lparr>figsize := Some (r_figsize region_dict)\<rparr>;
          axes = new_plotaxes;
          axes = axes\<lparr>title := Some ''Surface''\<rparr>;
          axes = axes\<lparr>xlimits := Some (r_xlimits region_dict)\<rparr>;
          axes = axes\<lparr>ylimits := Some (r_ylimits region_dict)\<rparr>;
          axes = axes\<lparr>afteraxes := Some surge_afteraxes\<rparr>;
          axes = add_surface_elevation limits axes;
          axes = add_land axes;
          axes = on_item ''surface''
                   (\<lambda>it. it\<lparr>amr_patchedges_show := Some (replicate 10 0)\<rparr>) axes;
          axes = on_item ''land''
                   (\<lambda>it. it\<lparr>amr_patchedges_show := Some (replicate 10 0)\<rparr>) axes;
          axes = add_custom_colorbar_ticks_to_axes axes ''surface'' surface_ticks
                   (Some surface_labels)
      in plotfigure\<lparr>plotaxes := [axes]\<rparr>)"

text \<open>Lines 120--133: the currents figure of one region.\<close>

definition currents_figure :: "string \<Rightarrow> PlotRegion \<Rightarrow> PlotFigure" where
  "currents_figure name region_dict =
     (let plotfigure = new_plotfigure (''Currents - '' @ name) None None;
          plotfigure = plotfigure\<lparr>figsize := Some (r_figsize region_dict)\<rparr>;
          axes = new_plotaxes;
          axes = axes\<lparr>title := Some ''Currents''\<rparr>;
          axes = axes\<lparr>xlimits := Some (r_xlimits region_dict)\<rparr>;
          axes = axes\<lparr>ylimits := Some (r_ylimits region_dict)\<rparr>;
          axes = axes\<lparr>afteraxes := Some surge_afteraxes\<rparr>;
          axes = add_speed speed_limits axes;
          axes = add_land axes;
          axes = on_item ''speed''
                   (\<lambda>it. it\<lparr>amr_patchedges_show := Some (replicate 10 0)\<rparr>) axes;
          axes = on_item ''land''
                   (\<lambda>it. it\<lparr>amr_patchedges_show := Some (replicate 10 0)\<rparr>) axes;
          axes = add_custom_colorbar_ticks_to_axes axes ''speed'' speed_ticks
                   (Some speed_labels)
      in plotfigure\<lparr>plotaxes := [axes]\<rparr>)"

text \<open>
  Lines 101--133: the loop over \<^verbatim>\<open>regions.items()\<close>. Each pass creates the surface
  figure and then the currents figure of the entry; a figure enters the figure list of
  the plot data when it is created.
\<close>

fun region_loop :: "real \<times> real \<Rightarrow> (string \<times> PlotRegion) list \<Rightarrow> ClawPlotData \<Rightarrow> ClawPlotData" where
  "region_loop limits [] plotdata = plotdata"
| "region_loop limits ((name, region_dict) # rest) plotdata =
     (let plotdata = plotdata\<lparr>figures := figures plotdata
                                 @ [surface_figure limits name region_dict]\<rparr>;
          plotdata = plotdata\<lparr>figures := figures plotdata
                                 @ [currents_figure name region_dict]\<rparr>
      in region_loop limits rest plotdata)"

text \<open>Lines 88--99: the \<^verbatim>\<open>regions\<close> dictionary, in insertion order.\<close>

definition plot_regions :: "real \<Rightarrow> real \<Rightarrow> real \<Rightarrow> real \<Rightarrow> (string \<times> PlotRegion) list" where
  "plot_regions lower0 upper0 lower1 upper1 =
     [(''Coast'', \<lparr>r_xlimits = (lower0, upper0), r_ylimits = (lower1, upper1),
                   r_figsize = (8, 7.5)\<rparr>),
      (''Zhapo Station'', \<lparr>r_xlimits = (111.71666667, 111.91666667),
                           r_ylimits = (21.48333333, 21.68333333),
                           r_figsize = (6, 6)\<rparr>),
      (''Landfall'', \<lparr>r_xlimits = (112.26, 112.86), r_ylimits = (21.3, 21.7),
                      r_figsize = (6, 4)\<rparr>),
      (''Quarry Bay'', \<lparr>r_xlimits = (114.11333333, 114.31333333),
                        r_ylimits = (22.19111111, 22.39111111),
                        r_figsize = (6, 6)\<rparr>)]"

text \<open>\<^verbatim>\<open>regions[key]\<close> raises \<^verbatim>\<open>KeyError\<close> on a missing key.\<close>

definition lookup_region :: "(string \<times> PlotRegion) list \<Rightarrow> string \<Rightarrow> error + PlotRegion" where
  "lookup_region dict key =
     (case map_of dict key of None \<Rightarrow> Inl (KeyError key) | Some r \<Rightarrow> Inr r)"

text \<open>
  Lines 138--148: the pressure figure. \<^verbatim>\<open>x and True\<close> on a Boolean \<open>x\<close> is the
  conjunction.
\<close>

definition pressure_figure :: "SurgeData \<Rightarrow> PlotRegion \<Rightarrow> PlotFigure" where
  "pressure_figure surge coast =
     (let plotfigure = new_plotfigure ''Pressure'' None None;
          plotfigure = plotfigure\<lparr>fig_show := Some (pressure_forcing surge \<and> True)\<rparr>;
          axes = new_plotaxes;
          axes = axes\<lparr>xlimits := Some (r_xlimits coast)\<rparr>;
          axes = axes\<lparr>ylimits := Some (r_ylimits coast)\<rparr>;
          axes = axes\<lparr>title := Some ''Pressure Field''\<rparr>;
          axes = axes\<lparr>afteraxes := Some surge_afteraxes\<rparr>;
          axes = axes\<lparr>scaled := Some True\<rparr>;
          axes = add_pressure pressure_limits axes;
          axes = add_land axes
      in plotfigure\<lparr>plotaxes := [axes]\<rparr>)"

text \<open>Lines 151--161: the wind figure.\<close>

definition wind_figure :: "SurgeData \<Rightarrow> PlotRegion \<Rightarrow> PlotFigure" where
  "wind_figure surge coast =
     (let plotfigure = new_plotfigure ''Wind Speed'' None None;
          plotfigure = plotfigure\<lparr>fig_show := Some (wind_forcing surge \<and> True)\<rparr>;
          axes = new_plotaxes;
          axes = axes\<lparr>xlimits := Some (r_xlimits coast)\<rparr>;
          axes = axes\<lparr>ylimits := Some (r_ylimits coast)\<rparr>;
          axes = axes\<lparr>title := Some ''Wind Field''\<rparr>;
          axes = axes\<lparr>afteraxes := Some surge_afteraxes\<rparr>;
          axes = axes\<lparr>scaled := Some True\<rparr>;
          axes = add_wind wind_limits axes;
          axes = add_land axes
      in plotfigure\<lparr>plotaxes := [axes]\<rparr>)"

text \<open>Lines 166--196: the gauge time-series figure.\<close>

definition gauge_surfaces_figure :: PlotFigure where
  "gauge_surfaces_figure =
     (let plotfigure = new_plotfigure ''Gauge Surfaces'' (Some 300) (Some ''each_gauge'');
          plotfigure = plotfigure\<lparr>fig_show := Some True\<rparr>;
          plotfigure = plotfigure\<lparr>clf_each_gauge := Some True\<rparr>;
          axes = new_plotaxes;
          axes = axes\<lparr>xlimits := Some (- 2.25, 0.75)\<rparr>;
          axes = axes\<lparr>ylimits := Some (- 1, 4)\<rparr>;
          axes = axes\<lparr>title := Some ''Surface''\<rparr>;
          axes = axes\<lparr>afteraxes := Some gauge_afteraxes\<rparr>;
          axes = add_item (new_plotitem None (Some ''1d_plot'') None) axes
      in plotfigure\<lparr>plotaxes := [axes]\<rparr>)"

text \<open>Lines 210--223: the gauge location figure.\<close>

definition gauge_locations_figure :: "real \<times> real \<Rightarrow> PlotFigure" where
  "gauge_locations_figure limits =
     (let plotfigure = new_plotfigure ''Gauge Locations'' None None;
          plotfigure = plotfigure\<lparr>fig_show := Some True\<rparr>;
          axes = new_plotaxes;
          axes = axes\<lparr>title := Some ''Gauge Locations''\<rparr>;
          axes = axes\<lparr>scaled := Some True\<rparr>;
          axes = axes\<lparr>xlimits := Some (111.0, 115.0)\<rparr>;
          axes = axes\<lparr>ylimits := Some (21.0, 22.5)\<rparr>;
          axes = axes\<lparr>afteraxes := Some gauge_location_afteraxes\<rparr>;
          axes = add_surface_elevation limits axes;
          axes = add_land axes;
          axes = on_item ''surface''
                   (\<lambda>it. it\<lparr>amr_patchedges_show := Some (replicate 10 0)\<rparr>) axes;
          axes = on_item ''land''
                   (\<lambda>it. it\<lparr>amr_patchedges_show := Some (replicate 10 0)\<rparr>) axes
      in plotfigure\<lparr>plotaxes := [axes]\<rparr>)"

text \<open>Lines 230--240: the hardcopy parameters.\<close>

definition print_parameters :: "ClawPlotData \<Rightarrow> ClawPlotData" where
  "print_parameters plotdata =
     plotdata\<lparr>printfigs := True, print_format := ''png'', print_framenos := ''all'',
              print_gaugenos := [1, 2], print_fignos := ''all'', html := True,
              latex := True, latex_figsperline := 2, latex_framesperline := 1,
              latex_makepdf := False, parallel := True\<rparr>"

text \<open>
  \<^verbatim>\<open>setplot(plotdata=None)\<close>. The five reads of lines 38--48 come first, each
  raising what its reader raises; the dictionary literal of lines 88--99 reads the four
  domain bounds. The local variables \<^verbatim>\<open>clawdata\<close>, \<^verbatim>\<open>track\<close> and
  \<^verbatim>\<open>regions\<close> carry a prime, their plain names being attribute names above.
\<close>

definition setplot :: "plot_env \<Rightarrow> ClawPlotData option \<Rightarrow> error + ClawPlotData" where
  "setplot pe arg =
     (let plotdata = (case arg of None \<Rightarrow> new_ClawPlotData pe | Some p \<Rightarrow> p);
          plotdata = plotdata\<lparr>figures := []\<rparr>;
          plotdata = plotdata\<lparr>format := ''binary''\<rparr>
      in
      (case read_claw pe (path_join (outdir plotdata) ''claw.data'') of
         Inl err \<Rightarrow> Inl err
       | Inr clawdata' \<Rightarrow>
      (case read_geoclaw pe (path_join (outdir plotdata) ''geoclaw.data'') of
         Inl err \<Rightarrow> Inl err
       | Inr physics \<Rightarrow>
      (case read_surge pe (path_join (outdir plotdata) ''surge.data'') of
         Inl err \<Rightarrow> Inl err
       | Inr surge \<Rightarrow>
      (case read_friction pe (path_join (outdir plotdata) ''friction.data'') of
         Inl err \<Rightarrow> Inl err
       | Inr friction \<Rightarrow>
      (case track_data pe (path_join (outdir plotdata) ''fort.track'') of
         Inl err \<Rightarrow> Inl err
       | Inr track' \<Rightarrow>
      (case get_item (lower clawdata') 0 of Inl err \<Rightarrow> Inl err | Inr lower0 \<Rightarrow>
      (case get_item (upper clawdata') 0 of Inl err \<Rightarrow> Inl err | Inr upper0 \<Rightarrow>
      (case get_item (lower clawdata') 1 of Inl err \<Rightarrow> Inl err | Inr lower1 \<Rightarrow>
      (case get_item (upper clawdata') 1 of Inl err \<Rightarrow> Inl err | Inr upper1 \<Rightarrow>
        (let regions' = plot_regions lower0 upper0 lower1 upper1;
             plotdata = region_loop (surface_limits physics) regions' plotdata
         in
         (case lookup_region regions' ''Coast'' of
            Inl err \<Rightarrow> Inl err
          | Inr coast \<Rightarrow>
             (let plotdata = plotdata\<lparr>figures := figures plotdata
                                         @ [pressure_figure surge coast]\<rparr>;
                  plotdata = plotdata\<lparr>figures := figures plotdata
                                         @ [wind_figure surge coast]\<rparr>;
                  plotdata = plotdata\<lparr>figures := figures plotdata
                                         @ [gauge_surfaces_figure]\<rparr>;
                  plotdata = plotdata\<lparr>figures := figures plotdata
                                         @ [gauge_locations_figure (surface_limits physics)]\<rparr>
              in Inr (print_parameters plotdata))))))))))))))"

section \<open>The time-offset correction of a storm track\<close>

text \<open>
  Modelled from the spec: the time-offset correction is applied inside the storm class
  of the solver framework, which is not under src/; \<^verbatim>\<open>setgeo\<close> only assigns
  \<^verbatim>\<open>sandy.time_offset\<close> (line 504) and calls \<^verbatim>\<open>sandy.write\<close> (line 506). The
  specification says of the correction: "The time-offset correction is a pure shift,
  not a resample --- all records shift uniformly; no interpolation", and "shifting a
  track by offset \<open>\<Delta>\<close> then comparing timestamps to the un-shifted track yields a
  constant difference of \<open>\<Delta>\<close> for every record".
\<close>

definition apply_time_offset :: "real \<Rightarrow> TrackRecord list \<Rightarrow> TrackRecord list" where
  "apply_time_offset delta rs = map (\<lambda>r. r\<lparr>timestamp := timestamp r + delta\<rparr>) rs"

section \<open>A sample environment\<close>

text \<open>
  Concrete collaborators on which the scripts can be run: a constructor that accepts the
  package name in any letter case and returns an aggregate with two-dimensional
  defaults, a decompressor that strips a four-byte header, a parser that yields a track
  of two records, and a remote site that serves the best-track archive.
\<close>

definition fresh_clawdata :: "nat \<Rightarrow> ClawInputData" where
  "fresh_clawdata nd =
     \<lparr>num_dim = nd, lower = replicate nd 0, upper = replicate nd 1,
      num_cells = replicate nd 100, num_eqn = 1, num_aux = 0, capa_index = 0, t0 = 0,
      restart = False, restart_file = ''fort.chk00006'', output_style = 1, tfinal = 1,
      num_output_times = 1, output_t0 = True, output_times = [], output_step_interval = 1,
      total_steps = 5, output_format = ''ascii'', output_q_components = ''all'',
      output_aux_components = ''none'', output_aux_onlyonce = True, verbosity = 0,
      dt_variable = True, dt_initial = 0.1, dt_max = 10 ^ 9, cfl_desired = 0.9,
      cfl_max = 1, steps_max = 50000, order = 2, dimensional_split = ''unsplit'',
      transverse_waves = 2, num_waves = 1, limiter = [''none''], use_fwaves = False,
      source_split = ''none'', num_ghost = 2, bc_lower = replicate nd ''user'',
      bc_upper = replicate nd ''user'', checkpt_style = 1, checkpt_times = [],
      checkpt_interval = 1000\<rparr>"

definition fresh_amrdata :: AmrclawInputData where
  "fresh_amrdata =
     \<lparr>amr_levels_max = 1, refinement_ratios_x = [1], refinement_ratios_y = [1],
      refinement_ratios_t = [1], aux_type = [], flag_richardson = False,
      flag2refine = True, regrid_interval = 2, regrid_buffer_width = 3,
      clustering_cutoff = 0.7, verbosity_regrid = 3, dprint = False, eprint = False,
      edebug = False, gprint = False, nprint = False, pprint = False, rprint = False,
      sprint = False, tprint = False, uprint = False\<rparr>"

definition fresh_geo_data :: GeoClawData where
  "fresh_geo_data =
     \<lparr>gravity = 9.8, coordinate_system = 1, earth_radius = 6367500, rho = 1025,
      rho_air = 1.15, ambient_pressure = 101300, coriolis_forcing = True,
      friction_forcing = True, friction_depth = 10 ^ 6, sea_level = 0,
      dry_tolerance = 0.001\<rparr>"

definition fresh_surge_data :: SurgeData where
  "fresh_surge_data =
     \<lparr>wind_forcing = False, drag_law = 1, pressure_forcing = False,
      display_landfall_time = False, wind_refine = [], R_refine = [],
      storm_specification_type = [], storm_file = []\<rparr>"

definition fresh_rundata :: "nat \<Rightarrow> rundata" where
  "fresh_rundata nd =
     \<lparr>clawdata = fresh_clawdata nd, amrdata = fresh_amrdata, regions = [], gauges = [],
      geo_data = Some fresh_geo_data,
      refinement_data = \<lparr>wave_tolerance = 0.1, speed_tolerance = [], deep_depth = 100,
                          max_level_deep = 3, variable_dt_refinement_ratios = False\<rparr>,
      topofiles = [], qinit_data = \<lparr>qinit_type = 0, qinitfiles = []\<rparr>, fixedgrids = [],
      surge_data = fresh_surge_data,
      friction_data = \<lparr>variable_friction = False, friction_regions = []\<rparr>\<rparr>"

definition sample_track :: "TrackRecord list" where
  "sample_track =
     [\<lparr>timestamp = 0, position = (- 77.4, 14.3), pressure = 100600, wind_radius = 111120\<rparr>,
      \<lparr>timestamp = 21600, position = (- 77.8, 13.9), pressure = 100400, wind_radius = 92600\<rparr>]"

definition sample_env :: env where
  "sample_env =
     \<lparr>ClawRunData = (\<lambda>pkg nd. if str_lower pkg = ''geoclaw'' then Inr (fresh_rundata nd)
                                else Inl (AttributeError ''Unrecognized Clawpack pkg'')),
      getcwd = ''/run'',
      expandvars = (\<lambda>p. p),
      gunzip = (\<lambda>bs. if take 4 bs = ''gzip'' then Inr (drop 4 bs)
                        else Inl (OSError ''Not a gzipped file'')),
      Storm_read = (\<lambda>txt. if txt = [] then Inl (ValueError ''empty track'')
                            else Inr \<lparr>track = sample_track, time_offset = None\<rparr>),
      Storm_write = (\<lambda>s. Inr ''storm'')\<rparr>"

definition sample_world :: world where
  "sample_world =
     \<lparr>files = Map.empty, remote = [atcf_url \<mapsto> ''gzipAL, 18, 2012102118''],
      net_log = [], stdout = [], written = []\<rparr>"

text \<open>
  An environment whose constructor returns an aggregate without \<^verbatim>\<open>geo_data\<close>, as the
  framework does for a package other than the geophysical one.
\<close>

definition bare_env :: env where
  "bare_env = sample_env\<lparr>ClawRunData := (\<lambda>pkg nd. Inr ((fresh_rundata nd)\<lparr>geo_data := None\<rparr>))\<rparr>"

text \<open>
  A sample output directory for \<^verbatim>\<open>setplot\<close>: the run had wind forcing enabled and
  pressure forcing disabled.
\<close>

definition sample_plotdata :: ClawPlotData where
  "sample_plotdata =
     \<lparr>outdir = ''_output'', figures = [], format = ''ascii'', printfigs = False,
      print_format = ''png'', print_framenos = ''all'', print_gaugenos = [],
      print_fignos = ''all'', html = False, latex = False, latex_figsperline = 0,
      latex_framesperline = 0, latex_makepdf = False, parallel = False\<rparr>"

definition sample_plot_env :: plot_env where
  "sample_plot_env =
     \<lparr>new_ClawPlotData = sample_plotdata,
      read_claw = (\<lambda>p. if p = ''_output/claw.data''
                        then Inr ((fresh_clawdata 2)\<lparr>lower := [108, 15], upper := [120, 26]\<rparr>)
                        else Inl (FileNotFoundError p)),
      read_geoclaw = (\<lambda>p. Inr fresh_geo_data),
      read_surge = (\<lambda>p. Inr (fresh_surge_data\<lparr>wind_forcing := True,
                                                pressure_forcing := False\<rparr>)),
      read_friction = (\<lambda>p. Inr \<lparr>variable_friction = False, friction_regions = []\<rparr>),
      track_data = (\<lambda>p. Inr \<lparr>track = sample_track, time_offset = None\<rparr>)\<rparr>"

text \<open>
  The figures that the loop over the regions creates, in closed form: for each entry in
  order, its surface figure followed by its currents figure.
\<close>

definition region_figures :: "real \<times> real \<Rightarrow> (string \<times> PlotRegion) list \<Rightarrow> PlotFigure list" where
  "region_figures limits rs =
     concat (map (\<lambda>(name, r). [surface_figure limits name r, currents_figure name r]) rs)"

section \<open>Facts about the run-configuration builder\<close>


lemmas clawdata_steps = setrun_clawdata_def assign_def set_lower_def set_upper_def
  set_num_cells_def set_bc_lower_def set_bc_upper_def set_item_def


text \<open>\<^verbatim>\<open>setgeo\<close> leaves the parts of the aggregate set by \<^verbatim>\<open>setrun\<close> alone.\<close>

lemma setgeo_Inr:
  assumes "setgeo e rd w = (Inr rd', w')"
  shows "clawdata rd' = clawdata rd" and "gauges rd' = gauges rd"
    and "regions rd' = regions rd" and "amrdata rd' = amrdata rd"
  using assms
  by (auto simp: setgeo_def Let_def split: option.splits prod.splits sum.splits)

lemma setrun_Inr:
  assumes "setrun e claw_pkg w = (Inr rd, w')"
  shows "\<exists>rd0. str_lower claw_pkg = ''geoclaw'' \<and> ClawRunData e claw_pkg 2 = Inr rd0
           \<and> setrun_clawdata 2 (clawdata rd0) = Inr (clawdata rd)
           \<and> amrdata rd = setrun_amrdata (amrdata rd0)
           \<and> regions rd = setrun_regions (regions rd0)
           \<and> gauges rd = setrun_gauges (clawdata rd) (gauges rd0)"
proof -
  from assms obtain rd0 c where pkg: "str_lower claw_pkg = ''geoclaw''"
    and mk: "ClawRunData e claw_pkg 2 = Inr rd0"
    and cd: "setrun_clawdata 2 (clawdata rd0) = Inr c"
    and geo: "setgeo e (rd0\<lparr>clawdata := c, amrdata := setrun_amrdata (amrdata rd0),
                           regions := setrun_regions (regions rd0),
                           gauges := setrun_gauges c (gauges rd0)\<rparr>) w = (Inr rd, w')"
    by (auto simp: setrun_def Let_def split: if_splits sum.splits)
  from setgeo_Inr [OF geo] have "clawdata rd = c" "amrdata rd = setrun_amrdata (amrdata rd0)"
    "regions rd = setrun_regions (regions rd0)" "gauges rd = setrun_gauges c (gauges rd0)"
    by simp_all
  with pkg mk cd show ?thesis by auto
qed

text \<open>The sample run succeeds.\<close>

lemma sample_run_ok:
  "\<exists>rd w'. setrun sample_env ''geoclaw'' sample_world = (Inr rd, w')"
  by (simp add: setrun_def sample_env_def str_lower_def lower_char_def fresh_rundata_def
       fresh_clawdata_def clawdata_steps setgeo_def write_storm_def fetch_atcf_def
       get_remote_file_def unzip_atcf_def sample_world_def atcf_url_def path_join_def
       basename_def decode_ascii_def Let_def numeral_2_eq_2)





text \<open>
  Claim C10. Every gauge appended by \<^verbatim>\<open>setrun\<close> observes over the whole simulated
  time span: the aggregate returned holds the gauges of the freshly constructed
  aggregate followed by three gauges numbered 1, 2, 3 in that order, each with
  \<^verbatim>\<open>t1 = clawdata.t0\<close> and \<^verbatim>\<open>t2 = clawdata.tfinal\<close> of the returned aggregate.
\<close>

theorem gauges_span_run:
  assumes "setrun e claw_pkg w = (Inr rd, w')"
  shows "\<exists>rd0 g1 g2 g3.
           ClawRunData e claw_pkg 2 = Inr rd0
           \<and> gauges rd = gauges rd0 @ [g1, g2, g3]
           \<and> map gaugeno [g1, g2, g3] = [1, 2, 3]
           \<and> (\<forall>g \<in> set [g1, g2, g3].
                 gauge_t1 g = t0 (clawdata rd) \<and> gauge_t2 g = tfinal (clawdata rd))"
proof -
  from setrun_Inr [OF assms]
  obtain rd0 :: rundata where mk: "ClawRunData e claw_pkg 2 = Inr rd0"
    and gs: "gauges rd = setrun_gauges (clawdata rd) (gauges rd0)"
    by auto
  show ?thesis
    using mk gs by (simp add: setrun_gauges_def)
qed

theorem gauges_span_run_witness:
  "\<exists>rd w' g1 g2 g3. setrun sample_env ''geoclaw'' sample_world = (Inr rd, w')
      \<and> gauges rd = [g1, g2, g3] \<and> map gaugeno [g1, g2, g3] = [1, 2, 3]
      \<and> map gauge_t1 [g1, g2, g3] = replicate 3 (t0 (clawdata rd))
      \<and> map gauge_t2 [g1, g2, g3] = replicate 3 (tfinal (clawdata rd))"
proof -
  obtain rd w' where run: "setrun sample_env ''geoclaw'' sample_world = (Inr rd, w')"
    using sample_run_ok by blast
  have mk: "ClawRunData sample_env ''geoclaw'' 2 = Inr (fresh_rundata 2)"
    by (simp add: sample_env_def str_lower_def lower_char_def)
  from gauges_span_run [OF run] mk
  obtain g1 g2 g3 where "gauges rd = gauges (fresh_rundata 2) @ [g1, g2, g3]"
    "map gaugeno [g1, g2, g3] = [1, 2, 3]"
    "\<forall>g \<in> set [g1, g2, g3]. gauge_t1 g = t0 (clawdata rd) \<and> gauge_t2 g = tfinal (clawdata rd)"
    by auto
  then show ?thesis using run
    by (auto simp: fresh_rundata_def numeral_3_eq_3)
qed

text \<open>No step of \<^verbatim>\<open>setrun\<close> serialises the aggregate.\<close>

lemma get_remote_file_written: "written (snd (get_remote_file url dir w)) = written w"
  by (simp add: get_remote_file_def Let_def split: option.splits)

lemma unzip_atcf_written: "written (snd (unzip_atcf e p w)) = written w"
  by (simp add: unzip_atcf_def Let_def split: option.splits sum.splits)

lemma fetch_atcf_written: "written (snd (fetch_atcf e w)) = written w"
proof -
  have "written (snd (unzip_atcf e p (snd (get_remote_file u d w)))) = written w" for p u d
    by (simp add: unzip_atcf_written get_remote_file_written)
  then show ?thesis
    by (auto simp: fetch_atcf_def Let_def get_remote_file_written
          split: prod.splits sum.splits)
      (metis get_remote_file_written snd_conv unzip_atcf_written)+
qed

lemma write_storm_written: "written (snd (write_storm e p w)) = written w"
  using fetch_atcf_written [of e w]
  by (auto simp: write_storm_def Let_def split: prod.splits sum.splits option.splits)

lemma setgeo_written: "written (snd (setgeo e rd w)) = written w"
proof (cases "geo_data rd")
  case None
  then show ?thesis by (simp add: setgeo_def)
next
  case (Some g)
  then show ?thesis
    using write_storm_written
    by (auto simp: setgeo_def Let_def split: prod.splits sum.splits)
       (metis snd_conv write_storm_written)+
qed

lemma setrun_written: "written (snd (setrun e claw_pkg w)) = written w"
  by (simp add: setrun_def Let_def setgeo_written split: sum.splits)

lemma fresh_clawdata_ok: "\<exists>c. setrun_clawdata 2 (fresh_clawdata 2) = Inr c"
  by (simp add: clawdata_steps fresh_clawdata_def numeral_2_eq_2)


text \<open>
  Claim C3, as amended. For every input string whose lower-cased form is not
  \<^verbatim>\<open>'geoclaw'\<close>, \<^verbatim>\<open>setrun\<close> raises the \<^verbatim>\<open>AssertionError\<close> of line 49 (the
  configuration error of the specification) with the world untouched: nothing has been
  constructed, fetched or written, and the script started with that argument ends with
  the same exception and no serialisation.
\<close>

theorem wrong_package_rejected:
  assumes "str_lower claw_pkg \<noteq> ''geoclaw''"
  shows "setrun e claw_pkg w = (Inl (AssertionError expected_msg), w)
         \<and> main e [prog, claw_pkg] w = (Inl (AssertionError expected_msg), w)"
  using assms by (simp add: setrun_def main_def)

theorem wrong_package_rejected_witness:
  "str_lower ''amrclaw'' \<noteq> ''geoclaw''
   \<and> setrun sample_env ''amrclaw'' sample_world
       = (Inl (AssertionError expected_msg), sample_world)
   \<and> main sample_env [''setrun.py'', ''amrclaw''] sample_world
       = (Inl (AssertionError expected_msg), sample_world)"
proof -
  have h: "str_lower ''amrclaw'' \<noteq> ''geoclaw''"
    by (simp add: str_lower_def lower_char_def)
  from wrong_package_rejected [OF h, of sample_env sample_world "''setrun.py''"] h
  show ?thesis by simp
qed

text \<open>
  Claim C3 as stated fails: \<^verbatim>\<open>'GeoClaw'\<close> is not the string \<^verbatim>\<open>'geoclaw'\<close>, yet
  the assertion compares the lower-cased name and \<^verbatim>\<open>setrun('GeoClaw')\<close> returns an
  aggregate in the sample environment.
\<close>

theorem mixed_case_package_accepted:
  "''GeoClaw'' \<noteq> ''geoclaw'' \<and> \<not> isl (fst (setrun sample_env ''GeoClaw'' sample_world))"
  by (simp add: setrun_def sample_env_def str_lower_def lower_char_def fresh_rundata_def
       fresh_clawdata_def clawdata_steps setgeo_def write_storm_def fetch_atcf_def
       get_remote_file_def unzip_atcf_def sample_world_def atcf_url_def path_join_def
       basename_def decode_ascii_def Let_def numeral_2_eq_2)

text \<open>
  Claim C4. When the aggregate passed to \<^verbatim>\<open>setgeo\<close> has no \<^verbatim>\<open>geo_data\<close>
  attribute, \<^verbatim>\<open>setgeo\<close> raises \<^verbatim>\<open>AttributeError("Missing geodata attribute")\<close>
  (the configuration error of the specification), and the exception is not recovered:
  when the constructor gives such an aggregate, \<^verbatim>\<open>setrun\<close> and the script end with
  the same exception and nothing is serialised.
\<close>

theorem missing_geo_data_raises:
  "(geo_data rd = None \<longrightarrow>
      fst (setgeo e rd w) = Inl (AttributeError ''Missing geodata attribute''))
   \<and> (str_lower claw_pkg = ''geoclaw'' \<and> ClawRunData e claw_pkg 2 = Inr rd0
        \<and> geo_data rd0 = None \<and> setrun_clawdata 2 (clawdata rd0) = Inr c \<longrightarrow>
        fst (setrun e claw_pkg w) = Inl (AttributeError ''Missing geodata attribute'')
        \<and> fst (main e [prog, claw_pkg] w) = Inl (AttributeError ''Missing geodata attribute'')
        \<and> written (snd (main e [prog, claw_pkg] w)) = written w)"
proof (intro conjI impI)
  assume "geo_data rd = None"
  then show "fst (setgeo e rd w) = Inl (AttributeError ''Missing geodata attribute'')"
    by (simp add: setgeo_def)
next
  assume h: "str_lower claw_pkg = ''geoclaw'' \<and> ClawRunData e claw_pkg 2 = Inr rd0
        \<and> geo_data rd0 = None \<and> setrun_clawdata 2 (clawdata rd0) = Inr c"
  then show run: "fst (setrun e claw_pkg w) = Inl (AttributeError ''Missing geodata attribute'')"
    by (simp add: setrun_def setgeo_def Let_def)
  then show "fst (main e [prog, claw_pkg] w) = Inl (AttributeError ''Missing geodata attribute'')"
    by (cases "setrun e claw_pkg w") (simp add: main_def)
  from run show "written (snd (main e [prog, claw_pkg] w)) = written w"
    using setrun_written [of e claw_pkg w]
    by (cases "setrun e claw_pkg w") (simp add: main_def)
qed


theorem missing_geo_data_raises_witness:
  "geo_data ((fresh_rundata 2)\<lparr>geo_data := None\<rparr>) = None
   \<and> fst (setgeo bare_env ((fresh_rundata 2)\<lparr>geo_data := None\<rparr>) sample_world)
       = Inl (AttributeError ''Missing geodata attribute'')
   \<and> fst (setrun bare_env ''geoclaw'' sample_world)
       = Inl (AttributeError ''Missing geodata attribute'')
   \<and> fst (main bare_env [''setrun.py'', ''geoclaw''] sample_world)
       = Inl (AttributeError ''Missing geodata attribute'')
   \<and> written (snd (main bare_env [''setrun.py'', ''geoclaw''] sample_world)) = []"
proof -
  obtain c where c: "setrun_clawdata 2 (fresh_clawdata 2) = Inr c"
    using fresh_clawdata_ok by blast
  have h1: "geo_data ((fresh_rundata 2)\<lparr>geo_data := None\<rparr>) = None" by simp
  have h2: "str_lower ''geoclaw'' = ''geoclaw''
      \<and> ClawRunData bare_env ''geoclaw'' 2 = Inr ((fresh_rundata 2)\<lparr>geo_data := None\<rparr>)
      \<and> geo_data ((fresh_rundata 2)\<lparr>geo_data := None\<rparr>) = None
      \<and> setrun_clawdata 2 (clawdata ((fresh_rundata 2)\<lparr>geo_data := None\<rparr>)) = Inr c"
    using c by (simp add: str_lower_def lower_char_def bare_env_def fresh_rundata_def)
  have w: "written sample_world = []" by (simp add: sample_world_def)
  from missing_geo_data_raises [of "(fresh_rundata 2)\<lparr>geo_data := None\<rparr>" bare_env
      sample_world "''geoclaw''" "(fresh_rundata 2)\<lparr>geo_data := None\<rparr>" c "''setrun.py''"]
    h1 h2 w
  show ?thesis by simp
qed



section \<open>Facts about the storm-track ingestor\<close>

text \<open>
  Claim C5. Applying the time-offset correction with offset \<open>\<Delta>\<close> to a track shifts the
  timestamp of every record by \<open>\<Delta>\<close>: the corrected track has the same number of
  records in the same order, record by record the timestamps differ by \<open>\<Delta>\<close>, and
  nothing else in a record changes (no resampling, no interpolation).
\<close>

theorem time_offset_is_uniform_shift:
  "length (apply_time_offset delta rs) = length rs
   \<and> (\<forall>i<length rs.
         timestamp (apply_time_offset delta rs ! i) - timestamp (rs ! i) = delta
         \<and> position (apply_time_offset delta rs ! i) = position (rs ! i)
         \<and> pressure (apply_time_offset delta rs ! i) = pressure (rs ! i)
         \<and> wind_radius (apply_time_offset delta rs ! i) = wind_radius (rs ! i))"
  by (simp add: apply_time_offset_def)

theorem time_offset_is_uniform_shift_witness:
  "length (apply_time_offset 3600 sample_track) = 2
   \<and> map timestamp (apply_time_offset 3600 sample_track) = [3600, 25200]
   \<and> timestamp (apply_time_offset 3600 sample_track ! 1) - timestamp (sample_track ! 1) = 3600
   \<and> position (apply_time_offset 3600 sample_track ! 1) = (- 77.8, 13.9)"
proof -
  have len: "length sample_track = 2" and lt: "(1::nat) < 2"
    by (simp_all add: sample_track_def)
  have ts: "map timestamp (apply_time_offset 3600 sample_track) = [3600, 25200]"
    by (simp add: apply_time_offset_def sample_track_def)
  have pos: "position (sample_track ! 1) = (- 77.8, 13.9)"
    by (simp add: sample_track_def)
  from time_offset_is_uniform_shift [of 3600 sample_track] len lt ts pos
  show ?thesis by auto
qed

text \<open>
  The compressed file that \<^verbatim>\<open>setgeo\<close> opens is the file that the remote fetch
  stores, and a second fetch or decompression finds the world as the first left it.
\<close>

lemma path_join_append:
  "b \<noteq> [] \<Longrightarrow> hd b \<noteq> CHR ''/'' \<Longrightarrow> path_join a (b @ c) = path_join a b @ c"
  by (simp add: path_join_def)

lemma atcf_paths:
  "path_join d ''bal182012.dat'' @ ''.'' @ ''gz'' = path_join d (basename atcf_url)"
proof -
  have "basename atcf_url = ''bal182012.dat'' @ ''.gz''"
    by (simp add: basename_def atcf_url_def)
  then show ?thesis
    by (simp add: path_join_append del: append.simps)
qed

lemma get_remote_file_Inr:
  assumes "get_remote_file url dir w = (Inr u, w1)"
  shows "files w1 (path_join dir (basename url)) \<noteq> None"
  using assms
  by (auto simp: get_remote_file_def Let_def split: if_splits option.splits)

lemma get_remote_file_skip:
  assumes "files w (path_join dir (basename url)) \<noteq> None"
  shows "get_remote_file url dir w = (Inr (), w)"
  using assms by (simp add: get_remote_file_def Let_def)

lemma unzip_atcf_Inr:
  assumes "unzip_atcf e p w = (Inr u, w1)"
  shows "\<exists>gz bs txt. files w (p @ ''.'' @ ''gz'') = Some gz \<and> gunzip e gz = Inr bs
            \<and> decode_ascii bs = Inr txt \<and> w1 = w\<lparr>files := (files w)(p \<mapsto> txt)\<rparr>"
  using assms
  by (auto simp: unzip_atcf_def Let_def split: option.splits sum.splits)

lemma unzip_atcf_again:
  assumes "unzip_atcf e p w = (Inr u, w1)"
  shows "unzip_atcf e p w1 = (Inr (), w1)"
proof -
  from unzip_atcf_Inr [OF assms] obtain gz bs dec where
    gz: "files w (p @ ''.'' @ ''gz'') = Some gz" and un: "gunzip e gz = Inr bs"
    and de: "decode_ascii bs = Inr dec" and w1: "w1 = w\<lparr>files := (files w)(p \<mapsto> dec)\<rparr>"
    by blast
  have ne: "p @ ''.'' @ ''gz'' \<noteq> p" by simp
  then have "files w1 (p @ ''.'' @ ''gz'') = Some gz"
    using gz w1 by simp
  then show ?thesis
    using un de w1 by (simp add: unzip_atcf_def Let_def)
qed

lemma fetch_atcf_again:
  assumes "fetch_atcf e w = (Inr p, w1)"
  shows "fetch_atcf e w1 = (Inr p, w1)"
proof -
  let ?dat = "path_join (getcwd e) ''bal182012.dat''"
  from assms obtain u v w0 where g: "get_remote_file atcf_url (getcwd e) w = (Inr u, w0)"
    and z: "unzip_atcf e ?dat w0 = (Inr v, w1)" and p: "p = ?dat"
    by (auto simp: fetch_atcf_def Let_def split: prod.splits sum.splits)
  from unzip_atcf_Inr [OF z] obtain dec where
    w1: "w1 = w0\<lparr>files := (files w0)(?dat \<mapsto> dec)\<rparr>" by blast
  have ne: "path_join (getcwd e) (basename atcf_url) \<noteq> ?dat"
    using atcf_paths [of "getcwd e"] by (metis append_self_conv list.distinct(1) append_is_Nil_conv)
  have "files w1 (path_join (getcwd e) (basename atcf_url)) \<noteq> None"
    using get_remote_file_Inr [OF g] w1 ne by simp
  then have "get_remote_file atcf_url (getcwd e) w1 = (Inr (), w1)"
    by (rule get_remote_file_skip)
  moreover have "unzip_atcf e ?dat w1 = (Inr (), w1)"
    by (rule unzip_atcf_again [OF z])
  ultimately show ?thesis
    using p by (simp add: fetch_atcf_def Let_def)
qed

lemma sample_fetch:
  "\<exists>w2. fetch_atcf sample_env sample_world = (Inr ''/run/bal182012.dat'', w2)
        \<and> net_log w2 = [atcf_url]
        \<and> files w2 ''/run/bal182012.dat.gz'' = Some ''gzipAL, 18, 2012102118''
        \<and> files w2 ''/run/bal182012.dat'' = Some ''AL, 18, 2012102118''"
  by (simp add: fetch_atcf_def get_remote_file_def unzip_atcf_def sample_env_def
        sample_world_def atcf_url_def path_join_def basename_def decode_ascii_def Let_def)


text \<open>
  Claim C6. The remote fetch is idempotent. When the local file exists, the fetch
  returns with the world as it was: no network request is logged and no file changes.
  After a fetch that succeeded, fetching again is such a no-op; and after lines 490--498
  (fetch and decompression) succeeded, running them again leaves every file and the
  network log as they were.
\<close>

theorem remote_fetch_idempotent:
  "(files w (path_join dir (basename url)) \<noteq> None \<longrightarrow>
      get_remote_file url dir w = (Inr (), w))
   \<and> (get_remote_file url dir w = (Inr u, w1) \<longrightarrow>
        get_remote_file url dir w1 = (Inr (), w1))
   \<and> (fetch_atcf e w0 = (Inr p, w2) \<longrightarrow>
        fetch_atcf e w2 = (Inr p, w2) \<and> net_log (snd (fetch_atcf e w2)) = net_log w2
        \<and> files (snd (fetch_atcf e w2)) = files w2)"
  using get_remote_file_skip get_remote_file_Inr fetch_atcf_again
  by (intro conjI impI) (simp_all add: get_remote_file_skip get_remote_file_Inr fetch_atcf_again)

theorem remote_fetch_idempotent_witness:
  "\<exists>w2. fetch_atcf sample_env sample_world = (Inr ''/run/bal182012.dat'', w2)
        \<and> files w2 ''/run/bal182012.dat.gz'' \<noteq> None
        \<and> get_remote_file atcf_url ''/run'' w2 = (Inr (), w2)
        \<and> fetch_atcf sample_env w2 = (Inr ''/run/bal182012.dat'', w2)
        \<and> net_log (snd (fetch_atcf sample_env w2)) = [atcf_url]"
proof -
  from sample_fetch obtain w2 where
    f: "fetch_atcf sample_env sample_world = (Inr ''/run/bal182012.dat'', w2)"
    and n: "net_log w2 = [atcf_url]"
    and gz: "files w2 ''/run/bal182012.dat.gz'' = Some ''gzipAL, 18, 2012102118''"
    by blast
  have path: "path_join ''/run'' (basename atcf_url) = ''/run/bal182012.dat.gz''"
    by (simp add: path_join_def basename_def atcf_url_def)
  from remote_fetch_idempotent [of w2 "''/run''" atcf_url "()" w2 sample_env sample_world
      "''/run/bal182012.dat''" w2] f n gz path
  show ?thesis by auto
qed

section \<open>Facts about the plot-specification builder\<close>


lemma region_loop_rest:
  "region_loop limits rs pd = pd\<lparr>figures := figures pd @ region_figures limits rs\<rparr>"
  by (induction rs arbitrary: pd) (auto simp: region_figures_def Let_def)




lemma surface_figure_fields:
  "fig_name (surface_figure limits name r) = ''Surface - '' @ name"
  "figsize (surface_figure limits name r) = Some (r_figsize r)"
  "map title (plotaxes (surface_figure limits name r)) = [Some ''Surface'']"
  "map xlimits (plotaxes (surface_figure limits name r)) = [Some (r_xlimits r)]"
  "map ylimits (plotaxes (surface_figure limits name r)) = [Some (r_ylimits r)]"
  by (simp_all add: surface_figure_def new_plotfigure_def new_plotaxes_def Let_def
        add_surface_elevation_def add_land_def add_item_def on_item_def
        add_custom_colorbar_ticks_to_axes_def)

lemma currents_figure_fields:
  "fig_name (currents_figure name r) = ''Currents - '' @ name"
  "figsize (currents_figure name r) = Some (r_figsize r)"
  "map title (plotaxes (currents_figure name r)) = [Some ''Currents'']"
  "map xlimits (plotaxes (currents_figure name r)) = [Some (r_xlimits r)]"
  "map ylimits (plotaxes (currents_figure name r)) = [Some (r_ylimits r)]"
  by (simp_all add: currents_figure_def new_plotfigure_def new_plotaxes_def Let_def
        add_speed_def add_land_def add_item_def on_item_def
        add_custom_colorbar_ticks_to_axes_def)



text \<open>
  No region figure is named like a forcing figure, and a successful \<^verbatim>\<open>setplot\<close> returns
  the region figures followed by the pressure, wind, gauge and gauge-location figures.
\<close>

lemma filter_region_figures:
  assumes "\<And>name. ''Surface - '' @ name \<noteq> key" and "\<And>name. ''Currents - '' @ name \<noteq> key"
  shows "filter (\<lambda>f. fig_name f = key) (region_figures limits rs) = []"
  using assms
  by (induction rs) (auto simp: region_figures_def surface_figure_fields currents_figure_fields
       simp del: append.simps)

lemma forcing_figure_fields:
  "fig_name (pressure_figure surge coast) = ''Pressure''"
  "fig_show (pressure_figure surge coast) = Some (pressure_forcing surge)"
  "fig_name (wind_figure surge coast) = ''Wind Speed''"
  "fig_show (wind_figure surge coast) = Some (wind_forcing surge)"
  "fig_name gauge_surfaces_figure = ''Gauge Surfaces''"
  "fig_name (gauge_locations_figure limits) = ''Gauge Locations''"
  by (simp_all add: pressure_figure_def wind_figure_def gauge_surfaces_figure_def
        gauge_locations_figure_def new_plotfigure_def Let_def)

lemma setplot_Inr:
  assumes "setplot pe arg = Inr pd"
  shows "\<exists>physics surge coast rs.
           read_surge pe (path_join (outdir (case arg of None \<Rightarrow> new_ClawPlotData pe
                                              | Some p \<Rightarrow> p)) ''surge.data'') = Inr surge
           \<and> figures pd = region_figures (surface_limits physics) rs
                 @ [pressure_figure surge coast, wind_figure surge coast,
                    gauge_surfaces_figure, gauge_locations_figure (surface_limits physics)]"
proof -
  from assms obtain physics surge coast rs where
    "read_surge pe (path_join (outdir (case arg of None \<Rightarrow> new_ClawPlotData pe
                                              | Some p \<Rightarrow> p)) ''surge.data'') = Inr surge"
    "figures pd = region_figures (surface_limits physics) rs
                 @ [pressure_figure surge coast, wind_figure surge coast,
                    gauge_surfaces_figure, gauge_locations_figure (surface_limits physics)]"
    by (auto simp: setplot_def Let_def region_loop_rest print_parameters_def
          split: sum.splits)
  then show ?thesis by blast
qed

lemma sample_setplot_ok: "\<exists>pd. setplot sample_plot_env None = Inr pd"
  by (simp add: setplot_def sample_plot_env_def sample_plotdata_def path_join_def
        get_item_def fresh_clawdata_def lookup_region_def plot_regions_def Let_def)


text \<open>
  Claim C9. In the plot data that \<^verbatim>\<open>setplot\<close> returns there is exactly one figure
  named \<^verbatim>\<open>'Pressure'\<close> and exactly one named \<^verbatim>\<open>'Wind Speed'\<close>, whatever the
  flags are; the \<^verbatim>\<open>show\<close> attribute of the first is the \<^verbatim>\<open>pressure_forcing\<close> flag
  and that of the second the \<^verbatim>\<open>wind_forcing\<close> flag read from the run's
  \<^verbatim>\<open>surge.data\<close>.
\<close>

theorem forcing_figures_show_flags:
  assumes "setplot pe arg = Inr pd"
  shows "\<exists>surge.
           read_surge pe (path_join (outdir (case arg of None \<Rightarrow> new_ClawPlotData pe
                                              | Some p \<Rightarrow> p)) ''surge.data'') = Inr surge
           \<and> map fig_show (filter (\<lambda>f. fig_name f = ''Pressure'') (figures pd))
               = [Some (pressure_forcing surge)]
           \<and> map fig_show (filter (\<lambda>f. fig_name f = ''Wind Speed'') (figures pd))
               = [Some (wind_forcing surge)]"
proof -
  from setplot_Inr [OF assms] obtain physics surge coast rs where
    rd: "read_surge pe (path_join (outdir (case arg of None \<Rightarrow> new_ClawPlotData pe
                                              | Some p \<Rightarrow> p)) ''surge.data'') = Inr surge"
    and figs: "figures pd = region_figures (surface_limits physics) rs
                 @ [pressure_figure surge coast, wind_figure surge coast,
                    gauge_surfaces_figure, gauge_locations_figure (surface_limits physics)]"
    by blast
  have p: "filter (\<lambda>f. fig_name f = ''Pressure'') (region_figures (surface_limits physics) rs) = []"
    by (rule filter_region_figures) simp_all
  have q: "filter (\<lambda>f. fig_name f = ''Wind Speed'') (region_figures (surface_limits physics) rs) = []"
    by (rule filter_region_figures) simp_all
  show ?thesis
    using rd by (simp add: figs p q forcing_figure_fields)
qed

theorem forcing_figures_show_flags_witness:
  "\<exists>pd. setplot sample_plot_env None = Inr pd
      \<and> map fig_show (filter (\<lambda>f. fig_name f = ''Pressure'') (figures pd)) = [Some False]
      \<and> map fig_show (filter (\<lambda>f. fig_name f = ''Wind Speed'') (figures pd)) = [Some True]"
proof -
  obtain pd where ok: "setplot sample_plot_env None = Inr pd"
    using sample_setplot_ok by blast
  have rd: "read_surge sample_plot_env p
              = Inr (fresh_surge_data\<lparr>wind_forcing := True, pressure_forcing := False\<rparr>)" for p
    by (simp add: sample_plot_env_def)
  from forcing_figures_show_flags [OF ok] rd ok
  show ?thesis by auto
qed


end
